theory Spec2Isabelle
  imports Main
begin

section \<open>The rule no-unused-styles (lib/rules/no-unused-styles.js)\<close>

subsection \<open>Syntax trees\<close>

text \<open>
  The value of a literal node, and what \<open>getBasicIdentifier\<close> returns (JavaScript's
  \<open>null\<close> being \<open>JNull\<close>). The rule observes three things of such a value: whether it
  is truthy (\<open>if (style)\<close>), whether it is strictly equal to the string \<open>'styles'\<close> or
  \<open>'props'\<close>, and the property key it is converted to (\<open>usedStyles[style] = true\<close>).
  A number, regular expression or bigint is \<open>JOther\<close>, given by its truthiness and by its
  conversion to a property key.
\<close>

datatype jsval =
    JString string
  | JBoolean bool
  | JNull
  | JOther bool string

text \<open>
  The nodes of the syntax tree that the rule reads, one constructor for each \<open>node.type\<close> it
  tests, with the fields it reads, in this order:
  \<^item> \<open>Identifier name\<close>, \<open>Literal value\<close>;
  \<^item> \<open>TemplateLiteral expressions raw quasis\<close>: a template literal has one more quasi than
    it has expressions, so \<open>quasis[0]\<close> always exists; \<open>raw\<close> is its raw text and
    \<open>quasis\<close> holds the raw texts of the others;
  \<^item> \<open>MemberExpression object property computed\<close>, \<open>ObjectExpression properties\<close>,
    \<open>Property key value computed\<close>, \<open>ExperimentalSpreadProperty argument\<close>;
  \<^item> \<open>ArrowFunctionExpression body\<close>, \<open>BlockStatement body\<close>, and
    \<open>ReturnStatement argument\<close>, whose argument is \<open>null\<close> in \<open>return;\<close>;
  \<^item> \<open>CallExpression callee arguments\<close>;
  \<^item> \<open>ImportDeclaration source specifiers\<close>, each specifier an imported and a local name:
    the rule hands the declaration to its detector and reads nothing of it;
  \<^item> \<open>OtherNode type\<close> for a node of any other type.
\<close>

datatype node =
    Identifier string
  | Literal jsval
  | TemplateLiteral "node list" string "string list"
  | ThisExpression
  | MemberExpression node node bool
  | ObjectExpression "node list"
  | Property node node bool
  | ExperimentalSpreadProperty node
  | ArrowFunctionExpression node
  | BlockStatement "node list"
  | ReturnStatement "node option"
  | CallExpression node "node list"
  | ImportDeclaration string "(string \<times> string) list"
  | OtherNode string

text \<open>
  A node as a visitor receives it: the node and the chain of its \<open>parent\<close> links, nearest
  first (\<open>node.parent\<close>, \<open>node.parent.parent\<close>, ...).
\<close>

datatype visit = Visit node "node list"

fun vnode :: "visit \<Rightarrow> node" where
  "vnode (Visit n ps) = n"

fun parents :: "visit \<Rightarrow> node list" where
  "parents (Visit n ps) = ps"

fun isMemberExpression :: "node \<Rightarrow> bool" where
  "isMemberExpression (MemberExpression obj prop c) = True"
| "isMemberExpression n = False"

fun isObjectExpression :: "node \<Rightarrow> bool" where
  "isObjectExpression (ObjectExpression ps) = True"
| "isObjectExpression n = False"

subsection \<open>JavaScript values and objects used as dictionaries\<close>

datatype error = TypeError

fun truthy :: "jsval \<Rightarrow> bool" where
  "truthy (JString s) = (s \<noteq> [])"
| "truthy (JBoolean b) = b"
| "truthy JNull = False"
| "truthy (JOther t k) = t"

fun toPropertyKey :: "jsval \<Rightarrow> string" where
  "toPropertyKey (JString s) = s"
| "toPropertyKey (JBoolean b) = (if b then ''true'' else ''false'')"
| "toPropertyKey JNull = ''null''"
| "toPropertyKey (JOther t k) = k"

text \<open>
  \<open>usedStyles\<close> and \<open>definedStyles\<close> are plain objects (\<open>{}\<close>) used as dictionaries, read
  through own properties only (\<open>has\<close> is \<open>hasOwnProperty\<close>, \<open>Object.keys\<close> lists own
  properties). An assignment \<open>obj[k] = v\<close> creates or overwrites the own property \<open>k\<close>,
  except for \<open>k = '__proto__'\<close>, which is the accessor inherited from \<open>Object.prototype\<close>:
  its setter ignores a primitive \<open>v\<close> and makes an object \<open>v\<close> the prototype, and in both
  cases the own properties stay as they were.

  Of \<open>usedStyles\<close> only the set of own keys is read. \<open>definedStyles\<close> is an association
  list in the order of \<open>Object.keys\<close>: the order of first insertion (its keys are \<open>name\<close>s of
  identifiers or \<open>undefined\<close>, never array indices).
\<close>

definition setUsed :: "string \<Rightarrow> string set \<Rightarrow> string set" where
  "setUsed k used = (if k = ''__proto__'' then used else insert k used)"

fun assign :: "string \<Rightarrow> 'v \<Rightarrow> (string \<times> 'v) list \<Rightarrow> (string \<times> 'v) list" where
  "assign k v [] = [(k, v)]"
| "assign k v (p # ps) = (if fst p = k then (k, v) # ps else p # assign k v ps)"

definition setDefined :: "string \<Rightarrow> node \<Rightarrow> (string \<times> node) list \<Rightarrow> (string \<times> node) list" where
  "setDefined k v defined = (if k = ''__proto__'' then defined else assign k v defined)"

definition has :: "string set \<Rightarrow> string \<Rightarrow> bool" where
  "has obj k = (k \<in> obj)"

subsection \<open>getBasicIdentifier\<close>

fun getBasicIdentifier :: "node \<Rightarrow> jsval" where
  "getBasicIdentifier (Identifier name) = JString name"
| "getBasicIdentifier (Literal v) = v"
| "getBasicIdentifier (TemplateLiteral expressions raw quasis) =
     (if expressions \<noteq> [] then JNull else JString raw)"
| "getBasicIdentifier n = JNull"

subsection \<open>The state of one run of the rule\<close>

text \<open>
  The variables of the closure that \<open>create\<close> returns, and the diagnostics that
  \<open>context.report\<close> has received, in the order of the calls (node and message).
  \<open>cssFromWithStylesName\<close> is \<open>None\<close> while it is \<open>undefined\<close>.
\<close>

record state =
  cssFromWithStylesName :: "string option"
  usedStyles :: "string set"
  definedStyles :: "(string \<times> node) list"
  reports :: "(node \<times> string) list"

definition create :: state where
  "create = \<lparr>cssFromWithStylesName = None, usedStyles = {}, definedStyles = [], reports = []\<rparr>"

definition isCSSFound :: "state \<Rightarrow> bool" where
  "isCSSFound st = (case cssFromWithStylesName st of None \<Rightarrow> False | Some name \<Rightarrow> name \<noteq> [])"

subsection \<open>The visitor of call expressions\<close>

text \<open>
  Lines 53 to 56. The detector \<open>findRequireCSSFromWithStylesCallExpression\<close> is a parameter:
  a function from the visited node to the local name, \<open>None\<close> for \<open>null\<close>.
\<close>

definition trackRequire :: "(visit \<Rightarrow> string option) \<Rightarrow> visit \<Rightarrow> state \<Rightarrow> state" where
  "trackRequire findRequire v st =
     (case findRequire v of
        None \<Rightarrow> st
      | Some found \<Rightarrow> st\<lparr>cssFromWithStylesName := Some found\<rparr>)"

text \<open>
  Lines 75 to 82: the loop over the statements of a block body, with the variable
  \<open>stylesObj\<close> as accumulator. \<open>bodyNode.argument.type\<close> throws when the argument is
  \<open>null\<close>.
\<close>

fun scanBlock :: "node list \<Rightarrow> node option \<Rightarrow> error + node option" where
  "scanBlock [] stylesObj = Inr stylesObj"
| "scanBlock (ReturnStatement None # rest) stylesObj = Inl TypeError"
| "scanBlock (ReturnStatement (Some argument) # rest) stylesObj =
     (if isObjectExpression argument then scanBlock rest (Some argument)
      else scanBlock rest stylesObj)"
| "scanBlock (bodyNode # rest) stylesObj = scanBlock rest stylesObj"

text \<open>Lines 66 to 83: the object of the style definitions, from the arguments of the call.\<close>

fun findStylesObj :: "node list \<Rightarrow> error + node option" where
  "findStylesObj [] = Inr None"
| "findStylesObj (ArrowFunctionExpression (ObjectExpression ps) # args) =
     Inr (Some (ObjectExpression ps))"
| "findStylesObj (ArrowFunctionExpression (BlockStatement stmts) # args) =
     scanBlock stmts None"
| "findStylesObj (styles # args) = Inr None"

text \<open>
  Lines 86 to 102, for one property. \<open>property.computed\<close> is \<open>undefined\<close> on a node
  without that field. \<open>property.key.name\<close> throws on a node without \<open>key\<close>, and is
  \<open>undefined\<close> when the key is not an identifier: the key of the assignment is then the
  string \<open>undefined\<close>.
\<close>

fun computedOf :: "node \<Rightarrow> bool" where
  "computedOf (Property k v c) = c"
| "computedOf (MemberExpression obj prop c) = c"
| "computedOf n = False"

fun isExperimentalSpreadProperty :: "node \<Rightarrow> bool" where
  "isExperimentalSpreadProperty (ExperimentalSpreadProperty a) = True"
| "isExperimentalSpreadProperty n = False"

fun keyOf :: "node \<Rightarrow> node option" where
  "keyOf (Property k v c) = Some k"
| "keyOf n = None"

fun keyNameOf :: "node \<Rightarrow> string" where
  "keyNameOf (Identifier name) = name"
| "keyNameOf k = ''undefined''"

definition addProperty :: "node \<Rightarrow> (string \<times> node) list \<Rightarrow> error + (string \<times> node) list" where
  "addProperty property defined =
     (if computedOf property then Inr defined
      else if isExperimentalSpreadProperty property then Inr defined
      else (case keyOf property of
              None \<Rightarrow> Inl TypeError
            | Some k \<Rightarrow> Inr (setDefined (keyNameOf k) property defined)))"

fun addProperties :: "node list \<Rightarrow> (string \<times> node) list \<Rightarrow> error + (string \<times> node) list" where
  "addProperties [] defined = Inr defined"
| "addProperties (property # rest) defined =
     (case addProperty property defined of
        Inl e \<Rightarrow> Inl e
      | Inr defined' \<Rightarrow> addProperties rest defined')"

text \<open>Lines 85 to 103: nothing happens when \<open>stylesObj\<close> is unset.\<close>

fun populate :: "node option \<Rightarrow> (string \<times> node) list \<Rightarrow> error + (string \<times> node) list" where
  "populate (Some (ObjectExpression ps)) defined = addProperties ps defined"
| "populate stylesObj defined = Inr defined"

text \<open>Lines 108 to 115: one report for each key of \<open>definedStyles\<close> that \<open>usedStyles\<close> lacks.\<close>

definition message :: "string \<Rightarrow> string" where
  "message definedStyleKey = ''Style `'' @ definedStyleKey @ ''` is unused''"

definition unused :: "(string \<times> node) list \<Rightarrow> string set \<Rightarrow> (node \<times> string) list" where
  "unused defined used =
     map (\<lambda>(k, n). (n, message k)) (filter (\<lambda>(k, n). \<not> has used k) defined)"

definition reportUnused :: "state \<Rightarrow> state" where
  "reportUnused st = st\<lparr>reports := reports st @ unused (definedStyles st) (usedStyles st)\<rparr>"

text \<open>
  Lines 65 to 116, once the gate is passed. A node without \<open>callee\<close> makes
  \<open>node.callee.name\<close> throw.
\<close>

fun withStylesCall :: "node \<Rightarrow> state \<Rightarrow> error + state" where
  "withStylesCall (CallExpression (Identifier name) args) st =
     (if name = ''withStyles'' then
        (case findStylesObj args of
           Inl e \<Rightarrow> Inl e
         | Inr stylesObj \<Rightarrow>
             (case populate stylesObj (definedStyles st) of
                Inl e \<Rightarrow> Inl e
              | Inr defined \<Rightarrow> Inr (reportUnused (st\<lparr>definedStyles := defined\<rparr>))))
      else Inr st)"
| "withStylesCall (CallExpression callee args) st = Inr st"
| "withStylesCall n st = Inl TypeError"

definition onCallExpression :: "(visit \<Rightarrow> string option) \<Rightarrow> visit \<Rightarrow> state \<Rightarrow> error + state" where
  "onCallExpression findRequire v st =
     (let st1 = trackRequire findRequire v st
      in if \<not> isCSSFound st1 then Inr st1 else withStylesCall (vnode v) st1)"

subsection \<open>The visitor of member expressions\<close>

text \<open>Lines 128 to 130 and 171 to 173: \<open>if (style) { usedStyles[style] = true; }\<close>.\<close>

definition markUsed :: "jsval \<Rightarrow> state \<Rightarrow> state" where
  "markUsed style st =
     (if truthy style then st\<lparr>usedStyles := setUsed (toPropertyKey style) (usedStyles st)\<rparr>
      else st)"

text \<open>
  Line 152: \<open>node.object.object && node.object.object.type !== 'ThisExpression'\<close>, as a
  function of \<open>node.object\<close>. Only a member expression has a field \<open>object\<close>.
\<close>

fun objectOfIsNotThis :: "node \<Rightarrow> bool" where
  "objectOfIsNotThis (MemberExpression obj prop c) = (obj \<noteq> ThisExpression)"
| "objectOfIsNotThis n = False"

text \<open>
  Lines 126 to 173, once the gate is passed, on the node and the chain of its parents.
  Reading \<open>type\<close> of a parent that is \<open>null\<close> throws, and so does reading
  \<open>node.object.type\<close> on a node without \<open>object\<close>.
\<close>

fun memberAccess :: "node \<Rightarrow> node list \<Rightarrow> state \<Rightarrow> error + state" where
  "memberAccess (MemberExpression obj prop c) ps st =
     (if obj = Identifier ''styles'' then Inr (markUsed (getBasicIdentifier prop) st)
      else
        let stylesIdentifier = getBasicIdentifier prop in
        if \<not> truthy stylesIdentifier then Inr st
        else if stylesIdentifier \<noteq> JString ''styles'' then Inr st
        else
          (case ps of
             [] \<Rightarrow> Inl TypeError
           | parent # ps' \<Rightarrow>
               (case parent of
                  MemberExpression pobj pprop pc \<Rightarrow>
                    if objectOfIsNotThis obj then Inr st
                    else
                      let propsIdentifier = getBasicIdentifier pobj in
                      if truthy propsIdentifier \<and> propsIdentifier \<noteq> JString ''props''
                      then Inr st
                      else if \<not> truthy propsIdentifier \<and> \<not> isMemberExpression pobj
                      then Inr st
                      else
                        (case ps' of
                           [] \<Rightarrow> Inl TypeError
                         | grandparent # ps'' \<Rightarrow>
                             if isMemberExpression grandparent then Inr st
                             else Inr (markUsed (getBasicIdentifier pprop) st))
                | _ \<Rightarrow> Inr st)))"
| "memberAccess n ps st = Inl TypeError"

definition onMemberExpression :: "visit \<Rightarrow> state \<Rightarrow> error + state" where
  "onMemberExpression v st =
     (if \<not> isCSSFound st then Inr st else memberAccess (vnode v) (parents v) st)"

subsection \<open>The visitor of import declarations\<close>

text \<open>
  Lines 176 to 186. The detector \<open>findImportCSSFromWithStylesImportDeclaration\<close> is a
  parameter, as the other one.
\<close>

definition onImportDeclaration :: "(visit \<Rightarrow> string option) \<Rightarrow> visit \<Rightarrow> state \<Rightarrow> state" where
  "onImportDeclaration findImport v st =
     (if isCSSFound st then st
      else (case findImport v of
              None \<Rightarrow> st
            | Some found \<Rightarrow> st\<lparr>cssFromWithStylesName := Some found\<rparr>))"

subsection \<open>The traversal of a file\<close>

text \<open>
  The walker is not part of the rule. It enters the nodes of the file depth first, in the
  order of the text, and calls the visitor registered for the type of each node as it
  enters it. A file is given here by that sequence of visits; an exception thrown by a
  visitor ends the traversal.
\<close>

definition visitNode ::
  "(visit \<Rightarrow> string option) \<Rightarrow> (visit \<Rightarrow> string option) \<Rightarrow> visit \<Rightarrow> state \<Rightarrow> error + state" where
  "visitNode findImport findRequire v st =
     (case vnode v of
        CallExpression callee args \<Rightarrow> onCallExpression findRequire v st
      | MemberExpression obj prop c \<Rightarrow> onMemberExpression v st
      | ImportDeclaration source specifiers \<Rightarrow> Inr (onImportDeclaration findImport v st)
      | _ \<Rightarrow> Inr st)"

fun traverse ::
  "(visit \<Rightarrow> string option) \<Rightarrow> (visit \<Rightarrow> string option) \<Rightarrow> visit list \<Rightarrow> state \<Rightarrow> error + state" where
  "traverse findImport findRequire [] st = Inr st"
| "traverse findImport findRequire (v # vs) st =
     (case visitNode findImport findRequire v st of
        Inl e \<Rightarrow> Inl e
      | Inr st' \<Rightarrow> traverse findImport findRequire vs st')"

definition lint ::
  "(visit \<Rightarrow> string option) \<Rightarrow> (visit \<Rightarrow> string option) \<Rightarrow> visit list \<Rightarrow> error + state" where
  "lint findImport findRequire file = traverse findImport findRequire file create"

subsection \<open>The block scan, as the specification words it\<close>

text \<open>
  The specification's rule for a block body: the argument of the last top-level return
  statement whose returned value is an object literal.
\<close>

definition returnedObject :: "node \<Rightarrow> node option" where
  "returnedObject stmt =
     (case stmt of
        ReturnStatement (Some argument) \<Rightarrow>
          (if isObjectExpression argument then Some argument else None)
      | _ \<Rightarrow> None)"

definition lastReturnedObject :: "node list \<Rightarrow> node option" where
  "lastReturnedObject stmts =
     (let objs = List.map_filter returnedObject stmts
      in if objs = [] then None else Some (last objs))"

subsection \<open>Example files\<close>

text \<open>
  The pieces of the files used below. A statement at the top of the file has the parents
  \<open>inStatement\<close>. In these files the import detector recognises the declaration
  \<open>import { css } from 'react-with-styles'\<close> under the local name \<open>css\<close>, and the require
  detector recognises the call in \<open>const { css: css2 } = require('react-with-styles')\<close>
  under the local name \<open>css2\<close>.
\<close>

definition inStatement :: "node list" where
  "inStatement = [OtherNode ''ExpressionStatement'', OtherNode ''Program'']"

definition importCss :: visit where
  "importCss =
     Visit (ImportDeclaration ''react-with-styles'' [(''css'', ''css'')]) [OtherNode ''Program'']"

definition requireCss2 :: visit where
  "requireCss2 =
     Visit (CallExpression (Identifier ''require'') [Literal (JString ''react-with-styles'')])
       [OtherNode ''VariableDeclarator'', OtherNode ''VariableDeclaration'', OtherNode ''Program'']"

definition importDetector :: "visit \<Rightarrow> string option" where
  "importDetector v = (if v = importCss then Some ''css'' else None)"

definition requireDetector :: "visit \<Rightarrow> string option" where
  "requireDetector v = (if v = requireCss2 then Some ''css2'' else None)"

definition noDetector :: "visit \<Rightarrow> string option" where
  "noDetector v = None"

text \<open>The state in which only the name \<open>css\<close> has been found.\<close>

definition cssFound :: state where
  "cssFound = create\<lparr>cssFromWithStylesName := Some ''css''\<rparr>"

text \<open>The properties \<open>a: {}\<close>, \<open>b: {}\<close> and \<open>'foo': {}\<close>.\<close>

definition propA :: node where
  "propA = Property (Identifier ''a'') (ObjectExpression []) False"

definition propB :: node where
  "propB = Property (Identifier ''b'') (ObjectExpression []) False"

definition propFoo :: node where
  "propFoo = Property (Literal (JString ''foo'')) (ObjectExpression []) False"

text \<open>
  The calls \<open>withStyles(() => ({ a: {} }))\<close>, \<open>withStyles(() => ({ a: {}, b: {} }))\<close>,
  \<open>withStyles(() => ({ 'foo': {} }))\<close>, \<open>withStyles()\<close> and
  \<open>withStyles(() => { return; })\<close>.
\<close>

definition withStylesOf :: "node list \<Rightarrow> visit" where
  "withStylesOf args = Visit (CallExpression (Identifier ''withStyles'') args) inStatement"

definition callA :: visit where
  "callA = withStylesOf [ArrowFunctionExpression (ObjectExpression [propA])]"

definition callAB :: visit where
  "callAB = withStylesOf [ArrowFunctionExpression (ObjectExpression [propA, propB])]"

definition callFoo :: visit where
  "callFoo = withStylesOf [ArrowFunctionExpression (ObjectExpression [propFoo])]"

definition callNoArgument :: visit where
  "callNoArgument = withStylesOf []"

definition callBareReturn :: visit where
  "callBareReturn = withStylesOf [ArrowFunctionExpression (BlockStatement [ReturnStatement None])]"

text \<open>The accesses \<open>styles.a\<close>, \<open>styles['foo']\<close>, \<open>styles['']\<close> and \<open>styles.__proto__\<close>.\<close>

definition stylesAt :: "node \<Rightarrow> bool \<Rightarrow> visit" where
  "stylesAt prop c = Visit (MemberExpression (Identifier ''styles'') prop c) inStatement"

definition stylesA :: visit where
  "stylesA = stylesAt (Identifier ''a'') False"

definition stylesFoo :: visit where
  "stylesFoo = stylesAt (Literal (JString ''foo'')) True"

definition stylesEmpty :: visit where
  "stylesEmpty = stylesAt (Literal (JString [])) True"

definition stylesProto :: visit where
  "stylesProto = stylesAt (Identifier ''__proto__'') False"

text \<open>
  The chains \<open>this.props.styles.foo\<close> and \<open>this.props.props.styles.foo\<close>, and the visits
  of their accesses \<open>.styles\<close> when the chain is a statement of its own.
\<close>

definition dot :: "node \<Rightarrow> string \<Rightarrow> node" where
  "dot obj name = MemberExpression obj (Identifier name) False"

definition thisPropsStyles :: node where
  "thisPropsStyles = dot (dot ThisExpression ''props'') ''styles''"

definition thisPropsPropsStyles :: node where
  "thisPropsPropsStyles = dot (dot (dot ThisExpression ''props'') ''props'') ''styles''"

definition visitThisPropsStyles :: visit where
  "visitThisPropsStyles = Visit thisPropsStyles (dot thisPropsStyles ''foo'' # inStatement)"

definition visitThisPropsPropsStyles :: visit where
  "visitThisPropsPropsStyles =
     Visit thisPropsPropsStyles (dot thisPropsPropsStyles ''foo'' # inStatement)"

text \<open>
  All the visits of the statement \<open>this.props.styles.foo;\<close>, in the order of the walker:
  the whole chain, then \<open>this.props.styles\<close>, then \<open>this.props\<close>.
\<close>

definition chainVisits :: "visit list" where
  "chainVisits =
     [Visit (dot thisPropsStyles ''foo'') inStatement,
      visitThisPropsStyles,
      Visit (dot ThisExpression ''props'') (thisPropsStyles # dot thisPropsStyles ''foo'' # inStatement)]"

text \<open>The access \<open>.styles\<close> of the statement \<open>this.props.styles.foo.bar;\<close>.\<close>

definition visitStylesBeforeBar :: visit where
  "visitStylesBeforeBar =
     Visit thisPropsStyles
       (dot thisPropsStyles ''foo'' # dot (dot thisPropsStyles ''foo'') ''bar'' # inStatement)"

text \<open>
  The block \<open>{ return { a: {} }; return; }\<close>, and the call
  \<open>withStyles(() => { return { a: {} }; return; })\<close>.
\<close>

definition blockObjectThenBareReturn :: "node list" where
  "blockObjectThenBareReturn =
     [ReturnStatement (Some (ObjectExpression [propA])), ReturnStatement None]"

definition callObjectThenBareReturn :: visit where
  "callObjectThenBareReturn =
     withStylesOf [ArrowFunctionExpression (BlockStatement blockObjectThenBareReturn)]"

section \<open>Properties\<close>

lemmas rule_defs =
  lint_def create_def visitNode_def onCallExpression_def onMemberExpression_def
  onImportDeclaration_def trackRequire_def isCSSFound_def addProperty_def setDefined_def
  reportUnused_def unused_def has_def markUsed_def setUsed_def

lemmas example_defs =
  inStatement_def importCss_def requireCss2_def importDetector_def requireDetector_def
  noDetector_def cssFound_def propA_def propB_def propFoo_def withStylesOf_def callA_def
  callAB_def callFoo_def callNoArgument_def callBareReturn_def stylesAt_def stylesA_def
  stylesFoo_def stylesEmpty_def stylesProto_def dot_def thisPropsStyles_def
  thisPropsPropsStyles_def visitThisPropsStyles_def visitThisPropsPropsStyles_def
  chainVisits_def visitStylesBeforeBar_def blockObjectThenBareReturn_def
  callObjectThenBareReturn_def

subsection \<open>Helper facts\<close>

lemma returnedObject_simps [simp]:
  "returnedObject (ReturnStatement None) = None"
  "returnedObject (ReturnStatement (Some a)) = (if isObjectExpression a then Some a else None)"
  by (simp_all add: returnedObject_def)

lemma scanBlock_throws:
  "ReturnStatement None \<in> set stmts \<Longrightarrow> scanBlock stmts acc = Inl TypeError"
  by (induction stmts acc rule: scanBlock.induct) auto

lemma scanBlock_last:
  "ReturnStatement None \<notin> set stmts \<Longrightarrow>
   scanBlock stmts acc =
     Inr (case lastReturnedObject stmts of None \<Rightarrow> acc | Some obj \<Rightarrow> Some obj)"
proof (induction stmts acc rule: scanBlock.induct)
  case (1 stylesObj)
  then show ?case by (simp add: lastReturnedObject_def)
next
  case (2 rest stylesObj)
  then show ?case by simp
next
  case (3 argument rest stylesObj)
  then show ?case by (auto simp: lastReturnedObject_def Let_def)
qed (auto simp: lastReturnedObject_def returnedObject_def Let_def)

lemma findStylesObj_block:
  "ReturnStatement None \<notin> set stmts \<Longrightarrow>
   findStylesObj (ArrowFunctionExpression (BlockStatement stmts) # args) =
     Inr (lastReturnedObject stmts)"
  by (simp add: scanBlock_last split: option.splits)

lemma withStylesCall_name:
  "withStylesCall n st = Inr st' \<Longrightarrow> cssFromWithStylesName st' = cssFromWithStylesName st"
  by (induction n st rule: withStylesCall.induct)
     (auto simp: reportUnused_def split: if_splits sum.splits)

lemma closed_gate_visit:
  assumes "\<not> isCSSFound st" and "findImport v = None" and "findRequire v = None"
  shows "visitNode findImport findRequire v st = Inr st"
  using assms
  by (cases "vnode v")
     (simp_all add: visitNode_def onCallExpression_def onMemberExpression_def
        onImportDeclaration_def trackRequire_def)

lemma closed_gate_traverse:
  assumes "\<not> isCSSFound st"
    and "\<forall>v \<in> set vs. findImport v = None \<and> findRequire v = None"
  shows "traverse findImport findRequire vs st = Inr st"
  using assms by (induction vs) (simp_all add: closed_gate_visit)

subsection \<open>Recording the defined styles\<close>

text \<open>
  Claim C1. Each property of the style definitions that is neither computed nor a spread
  should be recorded in \<open>definedStyles\<close> under the key that \<open>getBasicIdentifier\<close> resolves,
  a string literal key under its string. In the file

  \<^verbatim>\<open>import { css } from 'react-with-styles'; styles['foo']; withStyles(() => ({ 'foo': {} }));\<close>

  the key of the property resolves to \<open>foo\<close>, and \<open>foo\<close> is used, but line 101 reads
  \<open>property.key.name\<close>, which a literal does not have: the property is recorded under
  \<open>undefined\<close> and reported as the unused style \<open>undefined\<close>.
\<close>

theorem literal_key_recorded_as_undefined:
  "getBasicIdentifier (Literal (JString ''foo'')) = JString ''foo'' \<and>
   lint importDetector noDetector [importCss, stylesFoo, callFoo] =
     Inr \<lparr>cssFromWithStylesName = Some ''css'',
          usedStyles = {''foo''},
          definedStyles = [(''undefined'', propFoo)],
          reports = [(propFoo, message ''undefined'')]\<rparr>"
  by (simp add: rule_defs example_defs)

subsection \<open>A call without style definitions\<close>

text \<open>
  Claim C2, as stated: a call of \<open>withStyles\<close> from which no object of style definitions is
  resolved reports nothing, even if \<open>definedStyles\<close> holds unused keys of an earlier call.
  It fails on the file

  \<^verbatim>\<open>import { css } from 'react-with-styles'; withStyles(() => ({ a: {} })); withStyles();\<close>

  where the second call resolves no object and reports the style \<open>a\<close> once more.
\<close>

theorem call_without_object_reports_earlier_keys:
  "findStylesObj [] = Inr None \<and>
   lint importDetector noDetector [importCss, callA] =
     Inr \<lparr>cssFromWithStylesName = Some ''css'', usedStyles = {},
          definedStyles = [(''a'', propA)],
          reports = [(propA, message ''a'')]\<rparr> \<and>
   lint importDetector noDetector [importCss, callA, callNoArgument] =
     Inr \<lparr>cssFromWithStylesName = Some ''css'', usedStyles = {},
          definedStyles = [(''a'', propA)],
          reports = [(propA, message ''a''), (propA, message ''a'')]\<rparr>"
  by (simp add: rule_defs example_defs)

text \<open>
  Claim C2, amended. When the gate is open, a call of \<open>withStyles\<close> from which no object of
  style definitions is resolved leaves \<open>definedStyles\<close> and \<open>usedStyles\<close> as they are, and
  reports one diagnostic for each key that \<open>definedStyles\<close> already holds and
  \<open>usedStyles\<close> lacks: none exactly when there is no such key.
\<close>

theorem call_without_object:
  assumes "vnode v = CallExpression (Identifier ''withStyles'') args"
    and "findStylesObj args = Inr None"
    and "isCSSFound (trackRequire findRequire v st)"
  shows "onCallExpression findRequire v st =
     Inr ((trackRequire findRequire v st)
            \<lparr>reports := reports st @ unused (definedStyles st) (usedStyles st)\<rparr>)"
proof -
  let ?st1 = "trackRequire findRequire v st"
  have same: "definedStyles ?st1 = definedStyles st" "usedStyles ?st1 = usedStyles st"
    "reports ?st1 = reports st"
    by (simp_all add: trackRequire_def split: option.splits)
  have "onCallExpression findRequire v st = withStylesCall (vnode v) ?st1"
    using assms(3) by (simp add: onCallExpression_def)
  also have "\<dots> = Inr (reportUnused (?st1\<lparr>definedStyles := definedStyles ?st1\<rparr>))"
    using assms(1,2) by simp
  also have "\<dots> = Inr (?st1\<lparr>reports := reports st @ unused (definedStyles st) (usedStyles st)\<rparr>)"
    by (simp add: reportUnused_def same)
  finally show ?thesis .
qed

theorem call_without_object_witness:
  "vnode callNoArgument = CallExpression (Identifier ''withStyles'') [] \<and>
   findStylesObj [] = Inr None \<and>
   isCSSFound (trackRequire noDetector callNoArgument (cssFound\<lparr>definedStyles := [(''a'', propA)]\<rparr>)) \<and>
   onCallExpression noDetector callNoArgument (cssFound\<lparr>definedStyles := [(''a'', propA)]\<rparr>) =
     Inr (cssFound\<lparr>definedStyles := [(''a'', propA)], reports := [(propA, message ''a'')]\<rparr>)"
proof -
  let ?st = "cssFound\<lparr>definedStyles := [(''a'', propA)]\<rparr>"
  have h1: "vnode callNoArgument = CallExpression (Identifier ''withStyles'') []"
    by (simp add: example_defs)
  have h2: "findStylesObj [] = Inr None"
    by simp
  have h3: "isCSSFound (trackRequire noDetector callNoArgument ?st)"
    by (simp add: rule_defs example_defs)
  show ?thesis
    using call_without_object [OF h1 h2 h3] h1 h2 h3
    by (simp add: rule_defs example_defs)
qed

subsection \<open>No exception\<close>

text \<open>
  Claim C3. The rule should traverse every file without raising an error, a return
  statement without argument in the block body of the style function included. In the file

  \<^verbatim>\<open>import { css } from 'react-with-styles'; withStyles(() => { return; });\<close>

  line 78 reads \<open>bodyNode.argument.type\<close> of the argument \<open>null\<close>, and the visitor throws
  a type error.
\<close>

theorem bare_return_throws:
  "lint importDetector noDetector [importCss, callBareReturn] = Inl TypeError"
  by (simp add: rule_defs example_defs)

subsection \<open>The name of the styling function\<close>

text \<open>
  Claim C4, as stated: the first detection fixes \<open>cssFromWithStylesName\<close> and no later
  detection of either form changes it. It fails on the file

  \<^verbatim>\<open>import { css } from 'react-with-styles'; const { css: css2 } = require('react-with-styles');\<close>

  where the name is \<open>css\<close> after the import declaration and \<open>css2\<close> after the call.
\<close>

theorem later_require_changes_name:
  "lint importDetector requireDetector [importCss] =
     Inr (create\<lparr>cssFromWithStylesName := Some ''css''\<rparr>) \<and>
   lint importDetector requireDetector [importCss, requireCss2] =
     Inr (create\<lparr>cssFromWithStylesName := Some ''css2''\<rparr>)"
  by (simp add: rule_defs example_defs)

text \<open>
  Claim C4, amended. Once the name is found, the visitor of import declarations leaves
  the state as it is, whatever its detector answers. The visitor of call expressions
  assigns the name at every call that its detector recognises, replacing an earlier name,
  and leaves the name as it is at every other call.
\<close>

theorem name_tracking:
  "(isCSSFound st \<longrightarrow> onImportDeclaration findImport v st = st) \<and>
   (onCallExpression findRequire w st = Inr st' \<longrightarrow>
      cssFromWithStylesName st' =
        (case findRequire w of
           None \<Rightarrow> cssFromWithStylesName st
         | Some name \<Rightarrow> Some name))"
proof (intro conjI impI)
  assume "isCSSFound st"
  then show "onImportDeclaration findImport v st = st"
    by (simp add: onImportDeclaration_def)
next
  assume run: "onCallExpression findRequire w st = Inr st'"
  let ?st1 = "trackRequire findRequire w st"
  have "cssFromWithStylesName st' = cssFromWithStylesName ?st1"
  proof (cases "isCSSFound ?st1")
    case True
    with run have "withStylesCall (vnode w) ?st1 = Inr st'"
      by (simp add: onCallExpression_def)
    then show ?thesis by (rule withStylesCall_name)
  next
    case False
    with run show ?thesis by (simp add: onCallExpression_def)
  qed
  then show "cssFromWithStylesName st' =
      (case findRequire w of None \<Rightarrow> cssFromWithStylesName st | Some name \<Rightarrow> Some name)"
    by (simp add: trackRequire_def split: option.splits)
qed

theorem name_tracking_witness:
  "isCSSFound cssFound \<and>
   onImportDeclaration importDetector importCss cssFound = cssFound \<and>
   onCallExpression requireDetector requireCss2 cssFound =
     Inr (cssFound\<lparr>cssFromWithStylesName := Some ''css2''\<rparr>) \<and>
   cssFromWithStylesName (cssFound\<lparr>cssFromWithStylesName := Some ''css2''\<rparr>) = Some ''css2''"
proof -
  have h1: "isCSSFound cssFound"
    by (simp add: rule_defs example_defs)
  have h2: "onCallExpression requireDetector requireCss2 cssFound =
      Inr (cssFound\<lparr>cssFromWithStylesName := Some ''css2''\<rparr>)"
    by (simp add: rule_defs example_defs)
  show ?thesis
    using name_tracking [where st = cssFound and findImport = importDetector and v = importCss
        and findRequire = requireDetector and w = requireCss2
        and st' = "cssFound\<lparr>cssFromWithStylesName := Some ''css2''\<rparr>"] h1 h2
    by simp
qed

subsection \<open>The gate\<close>

text \<open>
  Claim C5. In a file where neither detector ever returns a name, the rule reports
  nothing, whatever calls of \<open>withStyles\<close> and member accesses the file holds: the
  traversal ends without error in the state it started from, which has no reports.
\<close>

theorem no_detection_no_reports:
  assumes "\<forall>v \<in> set vs. findImport v = None \<and> findRequire v = None"
  shows "lint findImport findRequire vs = Inr create \<and> reports create = []"
proof -
  have "\<not> isCSSFound create"
    by (simp add: isCSSFound_def create_def)
  then have "traverse findImport findRequire vs create = Inr create"
    using assms by (rule closed_gate_traverse)
  then show ?thesis
    by (simp add: lint_def) (simp add: create_def)
qed

theorem no_detection_no_reports_witness:
  "noDetector callA = None \<and> noDetector stylesA = None \<and>
   lint noDetector noDetector [callA, stylesA] = Inr create \<and> reports create = []"
proof -
  have none: "noDetector callA = None" "noDetector stylesA = None"
    by (simp_all add: noDetector_def)
  then have h: "\<forall>v \<in> set [callA, stylesA]. noDetector v = None \<and> noDetector v = None"
    by simp
  from no_detection_no_reports [OF h] none show ?thesis
    by blast
qed

subsection \<open>Direct accesses\<close>

text \<open>
  Claim C6, as stated: when the gate is open, every access whose object is the identifier
  \<open>styles\<close> adds the key that \<open>getBasicIdentifier\<close> resolves to \<open>usedStyles\<close>. It
  fails at \<open>styles['']\<close>: the key resolves to the empty string, the value of the literal,
  which the test \<open>if (style)\<close> of line 128 takes for unresolved, and nothing is added.
\<close>

theorem empty_key_not_marked:
  "isCSSFound cssFound \<and>
   getBasicIdentifier (Literal (JString [])) = JString [] \<and>
   onMemberExpression stylesEmpty cssFound = Inr cssFound \<and>
   usedStyles cssFound = {}"
  by (simp add: rule_defs example_defs)

text \<open>
  Claim C6, amended. When the gate is open, an access whose object is the identifier
  \<open>styles\<close> adds the key that \<open>getBasicIdentifier\<close> resolves (the name of an identifier,
  the value of a literal, the raw text of a template literal without expressions) to
  \<open>usedStyles\<close> if the resolved value is truthy and its key is not \<open>__proto__\<close>, and adds
  nothing otherwise; a template literal with expressions resolves to \<open>null\<close> and adds
  nothing.
\<close>

theorem direct_access:
  assumes "isCSSFound st"
  shows "onMemberExpression (Visit (MemberExpression (Identifier ''styles'') prop c) ps) st =
      Inr (if truthy (getBasicIdentifier prop) \<and>
              toPropertyKey (getBasicIdentifier prop) \<noteq> ''__proto__''
           then st\<lparr>usedStyles := insert (toPropertyKey (getBasicIdentifier prop)) (usedStyles st)\<rparr>
           else st) \<and>
    (expressions \<noteq> [] \<longrightarrow>
       getBasicIdentifier (TemplateLiteral expressions raw quasis) = JNull \<and>
       onMemberExpression
         (Visit (MemberExpression (Identifier ''styles'')
            (TemplateLiteral expressions raw quasis) c) ps) st = Inr st)"
  using assms by (simp add: onMemberExpression_def markUsed_def setUsed_def)

theorem direct_access_witness:
  "isCSSFound cssFound \<and>
   onMemberExpression (stylesAt (Identifier ''foo'') False) cssFound =
     Inr (cssFound\<lparr>usedStyles := {''foo''}\<rparr>) \<and>
   onMemberExpression (stylesAt (Literal (JString ''foo'')) True) cssFound =
     Inr (cssFound\<lparr>usedStyles := {''foo''}\<rparr>) \<and>
   onMemberExpression (stylesAt (TemplateLiteral [] ''foo'' []) True) cssFound =
     Inr (cssFound\<lparr>usedStyles := {''foo''}\<rparr>) \<and>
   [Identifier ''bar''] \<noteq> [] \<and>
   getBasicIdentifier (TemplateLiteral [Identifier ''bar''] ''foo'' [[]]) = JNull \<and>
   onMemberExpression (stylesAt (TemplateLiteral [Identifier ''bar''] ''foo'' [[]]) True) cssFound =
     Inr cssFound \<and>
   onMemberExpression stylesEmpty cssFound = Inr cssFound \<and>
   onMemberExpression stylesProto cssFound = Inr cssFound"
proof -
  have h: "isCSSFound cssFound"
    by (simp add: rule_defs example_defs)
  have used: "usedStyles cssFound = {}"
    by (simp add: cssFound_def create_def)
  show ?thesis
    using h used
      direct_access [OF h, of "Identifier ''foo''" False inStatement "[Identifier ''bar'']" "''foo''" "[[]]"]
      direct_access [OF h, of "Literal (JString ''foo'')" True inStatement "[Identifier ''bar'']" "''foo''" "[[]]"]
      direct_access [OF h, of "TemplateLiteral [] ''foo'' []" True inStatement "[Identifier ''bar'']" "''foo''" "[[]]"]
      direct_access [OF h, of "Literal (JString [])" True inStatement "[Identifier ''bar'']" "''foo''" "[[]]"]
      direct_access [OF h, of "Identifier ''__proto__''" False inStatement "[Identifier ''bar'']" "''foo''" "[[]]"]
    by (simp add: stylesAt_def stylesEmpty_def stylesProto_def)
qed

subsection \<open>Accesses through props\<close>




subsection \<open>The block body of the style function\<close>

text \<open>
  Claim C8. When the body of the style function is a block, the scan should go through all
  its top-level statements, and the object of the style definitions should be the
  argument of the last top-level return statement that returns an object literal. In
  the file

  \<^verbatim>\<open>import { css } from 'react-with-styles'; withStyles(() => { return { a: {} }; return; });\<close>

  that statement is \<open>return { a: {} }\<close>, but the scan does not go through the block: at
  the second statement line 78 reads \<open>bodyNode.argument.type\<close> of the argument \<open>null\<close>
  and throws, so that no object is found and the traversal ends with a type error.
\<close>

theorem bare_return_after_object_throws:
  "lastReturnedObject blockObjectThenBareReturn = Some (ObjectExpression [propA]) \<and>
   findStylesObj [ArrowFunctionExpression (BlockStatement blockObjectThenBareReturn)] =
     Inl TypeError \<and>
   lint importDetector noDetector [importCss, callObjectThenBareReturn] = Inl TypeError"
  by (simp add: rule_defs example_defs lastReturnedObject_def)

subsection \<open>The order of usage and definition\<close>

text \<open>
  Claim C9. A file that imports \<open>css\<close>, calls \<open>withStyles(() => ({ a: {}, b: {} }))\<close> and
  later refers to \<open>styles.a\<close> only should get exactly one diagnostic, for \<open>b\<close>. The
  visitor reports as it enters the call, when the later access has not been visited yet:
  the file gets two diagnostics, for \<open>a\<close> and for \<open>b\<close>. With the access before the call
  it gets the one for \<open>b\<close>, with the message of the claim.
\<close>

theorem usage_after_call_reported:
  "lint importDetector noDetector [importCss, callAB, stylesA] =
     Inr \<lparr>cssFromWithStylesName = Some ''css'',
          usedStyles = {''a''},
          definedStyles = [(''a'', propA), (''b'', propB)],
          reports = [(propA, ''Style `a` is unused''), (propB, ''Style `b` is unused'')]\<rparr> \<and>
   lint importDetector noDetector [importCss, stylesA, callAB] =
     Inr \<lparr>cssFromWithStylesName = Some ''css'',
          usedStyles = {''a''},
          definedStyles = [(''a'', propA), (''b'', propB)],
          reports = [(propB, ''Style `b` is unused'')]\<rparr>"
  by (simp add: rule_defs example_defs message_def)

subsection \<open>Accesses before the detection\<close>

text \<open>
  Claim C10. A member expression visited while the name is not found (unset, or empty)
  leaves the state as it is, \<open>usedStyles\<close> included, and the rest of the traversal goes as
  if it had not been visited: an access before the import or require cannot keep a later
  call of \<open>withStyles\<close> from reporting the style.
\<close>

theorem access_before_detection_dropped:
  assumes "\<not> isCSSFound st" and "vnode v = MemberExpression obj prop c"
  shows "onMemberExpression v st = Inr st \<and>
    traverse findImport findRequire (v # vs) st = traverse findImport findRequire vs st"
  using assms by (simp add: visitNode_def onMemberExpression_def)

theorem access_before_detection_dropped_witness:
  "\<not> isCSSFound create \<and>
   vnode stylesA = MemberExpression (Identifier ''styles'') (Identifier ''a'') False \<and>
   onMemberExpression stylesA create = Inr create \<and>
   traverse importDetector noDetector [stylesA, importCss, callA] create =
     traverse importDetector noDetector [importCss, callA] create \<and>
   traverse importDetector noDetector [importCss, callA] create =
     Inr \<lparr>cssFromWithStylesName = Some ''css'', usedStyles = {},
          definedStyles = [(''a'', propA)],
          reports = [(propA, message ''a'')]\<rparr>"
proof -
  have h1: "\<not> isCSSFound create"
    by (simp add: isCSSFound_def create_def)
  have h2: "vnode stylesA = MemberExpression (Identifier ''styles'') (Identifier ''a'') False"
    by (simp add: example_defs)
  have rest: "traverse importDetector noDetector [importCss, callA] create =
     Inr \<lparr>cssFromWithStylesName = Some ''css'', usedStyles = {},
          definedStyles = [(''a'', propA)],
          reports = [(propA, message ''a'')]\<rparr>"
    by (simp add: rule_defs example_defs)
  show ?thesis
    using h1 h2 rest
      access_before_detection_dropped [OF h1 h2, of importDetector noDetector "[importCss, callA]"]
    by simp
qed


end
